theory Spec2Isabelle
  imports Complex_Main
begin

section \<open>Numbers\<close>

text \<open>
  The renderer script computes with JavaScript Numbers. They are modelled as
  \<^typ>\<open>real\<close>: every arithmetic operation is exact, and \<open>NaN\<close> and the infinities
  are not values of the model. Where the source can meet a missing value
  (\<open>null\<close>, \<open>undefined\<close>, or the \<open>NaN\<close> that \<open>parseFloat\<close> gives for text that
  is no number) the model uses \<^typ>\<open>real option\<close> and \<open>None\<close>.
\<close>

text \<open>\<open>Math.round\<close>: the nearest integer, a tie going to the larger one.\<close>

definition Math_round :: "real \<Rightarrow> int" where
  "Math_round x = \<lfloor>x + 1 / 2\<rfloor>"

text \<open>\<open>Math.floor\<close>.\<close>

definition Math_floor :: "real \<Rightarrow> int" where
  "Math_floor x = \<lfloor>x\<rfloor>"

text \<open>
  The operator \<open>%\<close>: the remainder of the division truncated towards zero, so
  that the result has the sign of the dividend. A zero divisor gives \<open>NaN\<close>
  in the source; the functions below test for it where it matters.
\<close>

definition trunc :: "real \<Rightarrow> int" where
  "trunc z = (if 0 \<le> z then \<lfloor>z\<rfloor> else \<lceil>z\<rceil>)"

definition js_rem :: "real \<Rightarrow> real \<Rightarrow> real" where
  "js_rem x y = x - y * of_int (trunc (x / y))"

text \<open>
  \<open>parseFloat(x.toFixed(d))\<close>. \<open>toFixed\<close> takes the sign off, writes a number
  of at least \<open>10^21\<close> as \<open>String(x)\<close> does, and otherwise picks the integer
  \<open>n\<close> with \<open>n / 10^d\<close> nearest to the number, the larger one at a tie;
  \<open>parseFloat\<close> reads the digits back.
\<close>

definition toFixed :: "nat \<Rightarrow> real \<Rightarrow> real" where
  "toFixed d x =
     (if 10 ^ 21 \<le> \<bar>x\<bar> then x
      else if x < 0 then - (of_int \<lfloor>(- x) * 10 ^ d + 1 / 2\<rfloor> / 10 ^ d)
      else of_int \<lfloor>x * 10 ^ d + 1 / 2\<rfloor> / 10 ^ d)"

section \<open>Grid math\<close>

record grid =
  eighth_note :: real
  quarter_note :: real
  half_note :: real
  downbeat_whole :: real

definition calcGrid :: "real \<Rightarrow> grid" where
  "calcGrid bpm =
     (let q = 60 / bpm
      in \<lparr>eighth_note = q / 2, quarter_note = q, half_note = q * 2, downbeat_whole = q * 4\<rparr>)"

definition snapToGrid :: "real \<Rightarrow> real \<Rightarrow> real" where
  "snapToGrid t eighth = of_int (Math_round (t / eighth)) * eighth"

datatype beat = Downbeat | Half | Quarter | Offbeat

definition eps :: real where
  "eps = 1 / 10000"

text \<open>
  The local function \<open>near\<close> of \<open>classifyBeat\<close>. With \<open>mod = 0\<close> the residue is
  \<open>NaN\<close> in the source and both comparisons are false.
\<close>

definition near :: "real \<Rightarrow> real \<Rightarrow> bool" where
  "near v md =
     (if md = 0 then False
      else (let r = js_rem (js_rem v md + md) md in r < eps \<or> md - r < eps))"

definition classifyBeat :: "real \<Rightarrow> grid \<Rightarrow> beat" where
  "classifyBeat snapped g =
     (let q = quarter_note g; h = half_note g; db = downbeat_whole g
      in if near snapped db then Downbeat
         else if near snapped h then Half
         else if near snapped q then Quarter
         else Offbeat)"

text \<open>
  The membership test in the words of the specification, for comparison with
  \<open>near\<close>: the residue \<open>v mod m\<close> is within \<open>1e-4\<close> of \<open>0\<close> or of \<open>m\<close>.
\<close>

definition residue :: "real \<Rightarrow> real \<Rightarrow> real" where
  "residue v m = v - m * of_int \<lfloor>v / m\<rfloor>"

definition member_of_family :: "real \<Rightarrow> real \<Rightarrow> bool" where
  "member_of_family v m \<longleftrightarrow> \<bar>residue v m - 0\<bar> < 1 / 10000 \<or> \<bar>residue v m - m\<bar> < 1 / 10000"

section \<open>Session state\<close>

text \<open>
  A word handed to \<open>processWords\<close>: \<open>{word, start}\<close> or \<open>{word, raw_start}\<close>;
  a field that is absent is \<open>None\<close>.
\<close>

record word_in =
  w_word :: string
  w_start :: "real option"
  w_raw_start :: "real option"

record grid_entry =
  word :: string
  raw_start :: real
  snapped_start :: real
  type :: beat

text \<open>
  The decoded audio: its length in seconds and the samples of channel 0. The
  name \<open>duration\<close> is kept for the field of the state; the \<open>duration\<close> of the
  audio buffer is \<open>ab_duration\<close> and that of a clip is \<open>clip_duration\<close>.
\<close>

record audio_buffer =
  ab_duration :: real
  channelData :: "real list"

record clip =
  name :: string
  path :: string
  clip_duration :: real

text \<open>
  What the script throws: a \<open>TypeError\<close> for a field read from \<open>null\<close>, or the
  exception, with its message, of reading and decoding the audio file. The
  texts that \<open>setStatus\<close> is called with; \<open>ErrorStatus\<close> is \<open>'Error: '\<close> and the
  message of the exception.
\<close>

datatype error = TypeError | DecodeError string

datatype status_msg =
  LoadingAudio
  | DetectingBPM
  | DetectionFailed
  | ErrorStatus error
  | TranscriptionFailed string

text \<open>
  The object \<open>state\<close> of the script, and with it the text of the status bar
  (\<open>None\<close> when \<open>setStatus(null)\<close> has hidden it).
\<close>

record state =
  filePath :: "string option"
  audioBuffer :: "audio_buffer option"
  bpm :: "real option"
  duration :: "real option"
  grid :: "grid option"
  lyricsGrid :: "grid_entry list"
  pythonCmd :: "string option"
  clips :: "clip list"
  statusText :: "status_msg option"

definition initial_state :: state where
  "initial_state =
     \<lparr>filePath = None, audioBuffer = None, bpm = None, duration = None, grid = None,
      lyricsGrid = [], pythonCmd = None, clips = [], statusText = None\<rparr>"

text \<open>
  An exception that leaves a function: what was thrown, and the session state
  at that moment.
\<close>

type_synonym result = "(error \<times> state) + state"

fun state_after :: "result \<Rightarrow> state" where
  "state_after (Inl (e, s)) = s"
| "state_after (Inr s) = s"

section \<open>Word alignment\<close>

text \<open>\<open>parseFloat(w.start ?? w.raw_start ?? 0)\<close>.\<close>

definition rawOf :: "word_in \<Rightarrow> real" where
  "rawOf w =
     (case w_start w of
        Some x \<Rightarrow> x
      | None \<Rightarrow> (case w_raw_start w of Some y \<Rightarrow> y | None \<Rightarrow> 0))"

text \<open>The function that \<open>processWords\<close> maps over the words.\<close>

definition gridEntry :: "grid \<Rightarrow> word_in \<Rightarrow> grid_entry" where
  "gridEntry g w =
     (let raw = rawOf w;
          snapped = snapToGrid raw (eighth_note g)
      in \<lparr>word = w_word w,
          raw_start = toFixed 4 raw,
          snapped_start = toFixed 4 snapped,
          type = classifyBeat snapped g\<rparr>)"

text \<open>
  \<open>processWords\<close>. With \<open>state.grid\<close> null the first word makes
  \<open>grid.eighth_note\<close> throw, before \<open>state.lyricsGrid\<close> is assigned; with no
  word the map never reads the grid. The two drawing calls at the end write
  to the page only.
\<close>

definition processWords :: "word_in list \<Rightarrow> state \<Rightarrow> result" where
  "processWords words s =
     (case grid s of
        None \<Rightarrow> if words = [] then Inr (s\<lparr>lyricsGrid := []\<rparr>) else Inl (TypeError, s)
      | Some g \<Rightarrow> Inr (s\<lparr>lyricsGrid := map (gridEntry g) words\<rparr>))"

text \<open>
  White space as \<open>\s\<close> and \<open>trim\<close> see it, among the characters of a byte
  string: tab, line feed, vertical tab, form feed, carriage return, space.
\<close>

definition js_space :: "char \<Rightarrow> bool" where
  "js_space c \<longleftrightarrow> c \<in> {CHR 0x09, CHR 0x0A, CHR 0x0B, CHR 0x0C, CHR 0x0D, CHR 0x20}"

definition trim :: "string \<Rightarrow> string" where
  "trim text = rev (dropWhile js_space (rev (dropWhile js_space text)))"

text \<open>
  \<open>text.split(/\s+/)\<close>: the pieces between the maximal runs of white space;
  the first argument collects the piece being read, last character first.
\<close>

function split_ws :: "string \<Rightarrow> string \<Rightarrow> string list" where
  "split_ws cur [] = [rev cur]"
| "split_ws cur (c # cs) =
     (if js_space c then rev cur # split_ws [] (dropWhile js_space cs)
      else split_ws (c # cur) cs)"
  by pat_completeness auto
termination
  by (relation "measure (\<lambda>(cur, cs). length cs)")
    (auto simp: less_Suc_eq_le length_dropWhile_le)

text \<open>\<open>text.trim().split(/\s+/).filter(Boolean)\<close>.\<close>

definition tokens :: "string \<Rightarrow> string list" where
  "tokens text = filter (\<lambda>w. w \<noteq> []) (split_ws [] (trim text))"

text \<open>
  \<open>distributeManualLyrics\<close>. A null duration counts as \<open>0\<close> in the division.
  With no word at all the step is infinite or not a number in the source,
  and is not used: the list of words to process is empty.
\<close>

definition distributeManualLyrics :: "string \<Rightarrow> state \<Rightarrow> result" where
  "distributeManualLyrics text s =
     (let words = tokens text
      in case grid s of
           None \<Rightarrow> Inl (TypeError, s)
         | Some g \<Rightarrow>
             (let totalBeats = Math_floor ((case duration s of None \<Rightarrow> 0 | Some d \<Rightarrow> d) / quarter_note g);
                  step = max 1 (Math_floor (of_int totalBeats / of_nat (length words)))
              in processWords
                   (map (\<lambda>(i, word). \<lparr>w_word = word,
                                       w_start = Some (of_nat i * of_int step * quarter_note g),
                                       w_raw_start = None\<rparr>)
                      (enumerate 0 words))
                   s))"

section \<open>Tempo\<close>

text \<open>
  \<open>applyBPM\<close>. The argument is \<open>None\<close> for \<open>NaN\<close>, which \<open>!bpm\<close> rejects as
  it rejects \<open>0\<close>.
\<close>

definition applyBPM :: "real option \<Rightarrow> state \<Rightarrow> result" where
  "applyBPM b s =
     (case b of
        None \<Rightarrow> Inr s
      | Some v \<Rightarrow>
          if v = 0 \<or> v \<le> 0 then Inr s
          else (let s1 = s\<lparr>bpm := Some v, grid := Some (calcGrid v)\<rparr>
                in if lyricsGrid s1 \<noteq> []
                   then processWords
                          (map (\<lambda>e. \<lparr>w_word = word e, w_start = Some (raw_start e), w_raw_start = None\<rparr>)
                             (lyricsGrid s1))
                          s1
                   else Inr s1))"

text \<open>
  What \<open>new MusicTempo(channelData).tempo\<close> does with the samples: it throws,
  or it gives a tempo. The library is a parameter of the model.
\<close>

datatype mt_outcome = MtThrows | MtTempo real

text \<open>A library that finds no tempo in any samples, for the examples.\<close>

definition no_tempo :: "real list \<Rightarrow> mt_outcome" where
  "no_tempo samples = MtThrows"

text \<open>\<open>detectBPM\<close>: the tempo or null, and the state with the status it set.\<close>

definition detectBPM :: "(real list \<Rightarrow> mt_outcome) \<Rightarrow> audio_buffer \<Rightarrow> state \<Rightarrow> real option \<times> state" where
  "detectBPM mt ab s =
     (let s1 = s\<lparr>statusText := Some DetectingBPM\<rparr>
      in case mt (channelData ab) of
           MtThrows \<Rightarrow> (None, s1)
         | MtTempo t \<Rightarrow>
             if 40 \<le> t \<and> t \<le> 280 then (Some (of_int (Math_round (t * 10)) / 10), s1)
             else (None, s1))"

text \<open>What reading and decoding the file gives: an exception, or the audio.\<close>

datatype load_outcome = LoadFails string | Loaded audio_buffer

definition loadAudioFile :: "string \<Rightarrow> load_outcome \<Rightarrow> state \<Rightarrow> (error \<times> state) + (audio_buffer \<times> state)" where
  "loadAudioFile p out s =
     (let s1 = s\<lparr>statusText := Some LoadingAudio\<rparr>
      in case out of
           LoadFails msg \<Rightarrow> Inl (DecodeError msg, s1)
         | Loaded ab \<Rightarrow>
             Inr (ab, s1\<lparr>audioBuffer := Some ab, duration := Some (ab_duration ab), filePath := Some p\<rparr>))"

text \<open>\<open>handleFile\<close>; its \<open>catch\<close> turns every exception into a status text.\<close>

definition handleFile :: "(real list \<Rightarrow> mt_outcome) \<Rightarrow> string \<Rightarrow> load_outcome \<Rightarrow> state \<Rightarrow> state" where
  "handleFile mt p out s =
     (if p = [] then s
      else case loadAudioFile p out s of
             Inl (err, s1) \<Rightarrow> s1\<lparr>statusText := Some (ErrorStatus err)\<rparr>
           | Inr (ab, s1) \<Rightarrow>
               (case detectBPM mt ab s1 of
                  (detected, s2) \<Rightarrow>
                    (case applyBPM (Some (case detected of None \<Rightarrow> 120 | Some v \<Rightarrow> v)) s2 of
                       Inl (err, s3) \<Rightarrow> s3\<lparr>statusText := Some (ErrorStatus err)\<rparr>
                     | Inr s3 \<Rightarrow>
                         (let s4 = s3\<lparr>statusText := None\<rparr>
                          in if detected = None then s4\<lparr>statusText := Some DetectionFailed\<rparr> else s4))))"

text \<open>The click handler of \<open>redetectBtn\<close>.\<close>

definition redetect :: "(real list \<Rightarrow> mt_outcome) \<Rightarrow> state \<Rightarrow> result" where
  "redetect mt s =
     (case audioBuffer s of
        None \<Rightarrow> Inr s
      | Some ab \<Rightarrow>
          (case detectBPM mt ab s of
             (None, s1) \<Rightarrow> Inr (s1\<lparr>statusText := None\<rparr>)
           | (Some v, s1) \<Rightarrow>
               (case applyBPM (Some v) s1 of
                  Inl e \<Rightarrow> Inl e
                | Inr s2 \<Rightarrow> Inr (s2\<lparr>statusText := None\<rparr>))))"

section \<open>Transcription, manual lyrics, reset\<close>

text \<open>What the \<open>transcribe\<close> call of the main process resolves to.\<close>

datatype transcribe_result = TrFailed string | TrWords "word_in list"

definition handleTranscribe :: "transcribe_result \<Rightarrow> state \<Rightarrow> result" where
  "handleTranscribe r s =
     (if filePath s = None \<or> pythonCmd s = None then Inr s
      else case r of
             TrFailed msg \<Rightarrow> Inr (s\<lparr>statusText := Some (TranscriptionFailed msg)\<rparr>)
           | TrWords ws \<Rightarrow> processWords ws (s\<lparr>statusText := None\<rparr>))"

text \<open>The click handler of \<open>manualApplyBtn\<close>.\<close>

definition manualApply :: "string \<Rightarrow> state \<Rightarrow> result" where
  "manualApply v s =
     (let text = trim v
      in if text \<noteq> [] then distributeManualLyrics text s else Inr s)"

definition resetApp :: "state \<Rightarrow> state" where
  "resetApp s =
     s\<lparr>filePath := None, audioBuffer := None, bpm := None, duration := None, grid := None,
       lyricsGrid := [], clips := [], statusText := None\<rparr>"

definition initPython :: "string option \<Rightarrow> state \<Rightarrow> state" where
  "initPython found s = s\<lparr>pythonCmd := found\<rparr>"

section \<open>Sessions\<close>

text \<open>
  What can happen to a session, each event with what the outside world
  answered. \<open>ClipsChanged\<close> stands for the three functions that write
  \<open>state.clips\<close> and nothing else. An exception that no handler catches ends
  the handler and leaves the state as it is then. Every handler runs to its
  end before the next event; the functions that draw (\<open>drawWaveform\<close>,
  \<open>drawTimeline\<close>, \<open>renderLyricsGrid\<close>, \<open>updateGridStats\<close>) read the state and
  write to the page only, and are not part of the model.
\<close>

datatype action =
  HandleFile string load_outcome
  | BpmInput "real option"
  | Redetect
  | Transcribe transcribe_result
  | ManualApply string
  | Reset
  | InitPython "string option"
  | ClipsChanged "clip list"

fun step :: "(real list \<Rightarrow> mt_outcome) \<Rightarrow> action \<Rightarrow> state \<Rightarrow> state" where
  "step mt (HandleFile p out) s = handleFile mt p out s"
| "step mt (BpmInput v) s = state_after (applyBPM v s)"
| "step mt Redetect s = state_after (redetect mt s)"
| "step mt (Transcribe r) s = state_after (handleTranscribe r s)"
| "step mt (ManualApply v) s = state_after (manualApply v s)"
| "step mt Reset s = resetApp s"
| "step mt (InitPython found) s = initPython found s"
| "step mt (ClipsChanged cs) s = s\<lparr>clips := cs\<rparr>"

fun run :: "(real list \<Rightarrow> mt_outcome) \<Rightarrow> action list \<Rightarrow> state \<Rightarrow> state" where
  "run mt [] s = s"
| "run mt (a # as) s = run mt as (step mt a s)"


section \<open>Export\<close>

record metadata =
  track :: string
  md_bpm :: real
  duration_seconds :: real
  grid_intervals :: grid

record export_json =
  metadata :: metadata
  lyrics_grid :: "grid_entry list"

text \<open>
  \<open>buildJSON\<close>, up to the object it gives to \<open>JSON.stringify\<close>.
  \<open>path.basename\<close> is a parameter. A null path or a null grid throws; a null
  tempo or duration counts as \<open>0\<close>.
\<close>

definition buildJSON :: "(string \<Rightarrow> string) \<Rightarrow> state \<Rightarrow> error + export_json" where
  "buildJSON basename s =
     (case filePath s of
        None \<Rightarrow> Inl TypeError
      | Some p \<Rightarrow>
          (case grid s of
             None \<Rightarrow> Inl TypeError
           | Some g \<Rightarrow>
               Inr \<lparr>metadata =
                      \<lparr>track = basename p,
                       md_bpm = of_int (Math_round ((case bpm s of None \<Rightarrow> 0 | Some v \<Rightarrow> v) * 100)) / 100,
                       duration_seconds = of_int (Math_round ((case duration s of None \<Rightarrow> 0 | Some d \<Rightarrow> d) * 100)) / 100,
                       grid_intervals =
                         \<lparr>eighth_note = toFixed 6 (eighth_note g),
                          quarter_note = toFixed 6 (quarter_note g),
                          half_note = toFixed 6 (half_note g),
                          downbeat_whole = toFixed 6 (downbeat_whole g)\<rparr>\<rparr>,
                    lyrics_grid = lyricsGrid s\<rparr>))"

section \<open>Footage tracker\<close>











section \<open>The uniform distribution in the words of the specification\<close>




section \<open>Properties of entries and sessions\<close>

text \<open>An entry whose two timestamps are written with four decimals.\<close>

definition entry_rounded :: "grid_entry \<Rightarrow> bool" where
  "entry_rounded x \<longleftrightarrow>
     toFixed 4 (raw_start x) = raw_start x \<and> toFixed 4 (snapped_start x) = snapped_start x"



definition session_rounded :: "state \<Rightarrow> bool" where
  "session_rounded s \<longleftrightarrow> list_all entry_rounded (lyricsGrid s)"


text \<open>Two states with the same tempo, grid and entries.\<close>

definition same_entries :: "state \<Rightarrow> state \<Rightarrow> bool" where
  "same_entries s' s \<longleftrightarrow> bpm s' = bpm s \<and> grid s' = grid s \<and> lyricsGrid s' = lyricsGrid s"

section \<open>Facts about the grid math\<close>



lemma rem_nonneg: "0 \<le> x \<Longrightarrow> 0 < m \<Longrightarrow> js_rem x m = x - m * of_int \<lfloor>x / m\<rfloor>"
  by (simp add: js_rem_def trunc_def)

lemma rem_bound:
  assumes "0 < m"
  shows "- m < js_rem v m"
proof -
  have "of_int (trunc (v / m)) < v / m + 1"
    unfolding trunc_def by (auto; linarith)
  then have "m * of_int (trunc (v / m)) < m * (v / m + 1)"
    using assms by (rule mult_strict_left_mono)
  also have "m * (v / m + 1) = v + m"
    using assms by (simp add: field_simps)
  finally show ?thesis by (simp add: js_rem_def)
qed

text \<open>For a positive modulus the doubled \<open>%\<close> of \<open>near\<close> is the residue in \<open>[0, m)\<close>.\<close>

lemma near_residue:
  assumes "0 < m"
  shows "js_rem (js_rem v m + m) m = residue v m"
proof -
  let ?a = "js_rem v m"
  have pos: "0 \<le> ?a + m"
    using rem_bound[OF assms, of v] by simp
  have "(?a + m) / m = v / m + of_int (1 - trunc (v / m))"
    using assms by (simp add: js_rem_def field_simps)
  then have "\<lfloor>(?a + m) / m\<rfloor> = \<lfloor>v / m\<rfloor> + (1 - trunc (v / m))"
    by (simp only: floor_add_int[symmetric])
  then have "js_rem (?a + m) m = ?a + m - m * of_int (\<lfloor>v / m\<rfloor> + (1 - trunc (v / m)))"
    using rem_nonneg[OF pos assms] by simp
  also have "\<dots> = residue v m"
    by (simp add: js_rem_def residue_def algebra_simps)
  finally show ?thesis .
qed

lemma residue_range:
  assumes "0 < m"
  shows "0 \<le> residue v m \<and> residue v m < m"
proof -
  have "of_int \<lfloor>v / m\<rfloor> \<le> v / m" "v / m < of_int \<lfloor>v / m\<rfloor> + 1"
    by linarith+
  then have "m * of_int \<lfloor>v / m\<rfloor> \<le> m * (v / m)" "m * (v / m) < m * (of_int \<lfloor>v / m\<rfloor> + 1)"
    using assms by (simp_all only: mult_le_cancel_left_pos mult_less_cancel_left_pos)
  moreover have "m * (v / m) = v"
    using assms by simp
  ultimately show ?thesis
    using assms by (simp add: residue_def algebra_simps)
qed

lemma near_member: "0 < m \<Longrightarrow> near v m = member_of_family v m"
  using residue_range[of m v]
  by (simp add: near_def Let_def near_residue member_of_family_def eps_def abs_minus_commute)

lemma near_multiple:
  assumes "0 < m"
  shows "near (of_nat k * m) m"
proof -
  have "residue (of_nat k * m) m = 0"
    using assms by (simp add: residue_def)
  then show ?thesis
    using assms by (simp add: near_def Let_def near_residue eps_def)
qed

lemma calcGrid_pos:
  assumes "0 < b"
  shows "0 < eighth_note (calcGrid b)" "0 < quarter_note (calcGrid b)"
    "0 < half_note (calcGrid b)" "0 < downbeat_whole (calcGrid b)"
  using assms by (simp_all add: calcGrid_def Let_def)

section \<open>Facts about rounding to decimals\<close>

lemma toFixed_of_int: "toFixed d (of_int n / 10 ^ d) = of_int n / 10 ^ d"
proof -
  have a: "- (of_int n / 10 ^ d) * 10 ^ d + 1 / 2 = (of_int (- n) + 1 / 2 :: real)"
    by simp
  have b: "of_int n / 10 ^ d * 10 ^ d + 1 / 2 = (of_int n + 1 / 2 :: real)"
    by simp
  have f: "\<lfloor>of_int m + 1 / 2 :: real\<rfloor> = m" for m :: int
    by linarith
  show ?thesis
    unfolding toFixed_def a b f by simp
qed

lemma toFixed_shape:
  "(10 ^ 21 \<le> \<bar>x\<bar> \<and> toFixed d x = x) \<or> (\<exists>n::int. toFixed d x = of_int n / 10 ^ d)"
proof (cases "10 ^ 21 \<le> \<bar>x\<bar>")
  case True
  then show ?thesis by (simp add: toFixed_def)
next
  case False
  show ?thesis
  proof (cases "x < 0")
    case True
    with False have "toFixed d x = of_int (- \<lfloor>(- x) * 10 ^ d + 1 / 2\<rfloor>) / 10 ^ d"
      by (simp add: toFixed_def)
    then show ?thesis by blast
  next
    case nn: False
    with False have "toFixed d x = of_int \<lfloor>x * 10 ^ d + 1 / 2\<rfloor> / 10 ^ d"
      by (simp add: toFixed_def)
    then show ?thesis by blast
  qed
qed

lemma toFixed_idem: "toFixed d (toFixed d x) = toFixed d x"
  using toFixed_shape[of x d] by (auto simp: toFixed_of_int)




section \<open>Facts about the handlers\<close>


lemma applyBPM_pos:
  assumes "0 < v"
  shows "applyBPM (Some v) s =
    Inr (s\<lparr>bpm := Some v, grid := Some (calcGrid v),
           lyricsGrid := map (\<lambda>e. gridEntry (calcGrid v)
              \<lparr>w_word = word e, w_start = Some (raw_start e), w_raw_start = None\<rparr>) (lyricsGrid s)\<rparr>)"
  using assms by (simp add: applyBPM_def Let_def processWords_def)

lemma applyBPM_nonpos: "\<not> 0 < v \<Longrightarrow> applyBPM (Some v) s = Inr s"
  by (auto simp add: applyBPM_def)

lemma applyBPM_None: "applyBPM None s = Inr s"
  by (simp add: applyBPM_def)

lemma gridEntry_rounded: "entry_rounded (gridEntry g w)"
  by (simp add: entry_rounded_def gridEntry_def Let_def toFixed_idem)


lemma applyBPM_total: "applyBPM b s = Inr (state_after (applyBPM b s))"
proof (cases b)
  case None
  then show ?thesis by (simp add: applyBPM_None)
next
  case (Some v)
  then show ?thesis
    by (cases "0 < v") (simp_all add: applyBPM_pos applyBPM_nonpos)
qed

lemma handleFile_shape:
  "same_entries (handleFile mt p out s) s \<or>
   (\<exists>s1 v. same_entries s1 s \<and> same_entries (handleFile mt p out s) (state_after (applyBPM (Some v) s1)))"
proof (cases "p = []")
  case True
  then show ?thesis by (simp add: handleFile_def same_entries_def)
next
  case False
  show ?thesis
  proof (cases out)
    case (LoadFails msg)
    with False show ?thesis
      by (simp add: handleFile_def loadAudioFile_def Let_def same_entries_def)
  next
    case (Loaded ab)
    let ?s1 = "s\<lparr>statusText := Some LoadingAudio, audioBuffer := Some ab, duration := Some (ab_duration ab), filePath := Some p\<rparr>"
    obtain detected s2 where d: "detectBPM mt ab ?s1 = (detected, s2)"
      by (cases "detectBPM mt ab ?s1")
    then have s2: "s2 = ?s1\<lparr>statusText := Some DetectingBPM\<rparr>"
      by (auto simp add: detectBPM_def Let_def split: mt_outcome.splits if_splits)
    let ?v = "(case detected of None \<Rightarrow> 120 | Some v \<Rightarrow> v)"
    obtain s3 where a: "applyBPM (Some ?v) s2 = Inr s3"
      using applyBPM_total[of "Some ?v" s2] by blast
    have hf: "handleFile mt p out s = s3\<lparr>statusText := (if detected = None then Some DetectionFailed else None)\<rparr>"
      using False Loaded d a
      by (cases detected) (simp_all add: handleFile_def loadAudioFile_def Let_def)
    have "same_entries s2 s" by (simp add: s2 same_entries_def)
    moreover have "same_entries (handleFile mt p out s) (state_after (applyBPM (Some ?v) s2))"
      by (simp add: hf a same_entries_def)
    ultimately show ?thesis by blast
  qed
qed

section \<open>Facts about the properties of sessions\<close>

lemma rounded_cong: "same_entries s' s \<Longrightarrow> session_rounded s' = session_rounded s"
  by (simp add: same_entries_def session_rounded_def)


lemma rounded_processWords:
  "session_rounded s \<Longrightarrow> session_rounded (state_after (processWords ws s))"
  by (auto simp add: session_rounded_def processWords_def list_all_iff gridEntry_rounded
      split: option.splits)

lemma rounded_applyBPM:
  "session_rounded s \<Longrightarrow> session_rounded (state_after (applyBPM b s))"
proof (cases b)
  case None
  then show "session_rounded s \<Longrightarrow> ?thesis" by (simp add: applyBPM_None)
next
  case (Some v)
  then show "session_rounded s \<Longrightarrow> ?thesis"
    by (cases "0 < v")
      (simp_all add: applyBPM_pos applyBPM_nonpos session_rounded_def list_all_iff gridEntry_rounded)
qed





lemma redetect_shape:
  "same_entries (state_after (redetect mt s)) s \<or>
   (\<exists>s1 v. same_entries s1 s \<and> same_entries (state_after (redetect mt s)) (state_after (applyBPM (Some v) s1)))"
proof (cases "audioBuffer s")
  case None
  then show ?thesis by (simp add: redetect_def same_entries_def)
next
  case (Some ab)
  obtain detected s1 where d: "detectBPM mt ab s = (detected, s1)"
    by (cases "detectBPM mt ab s")
  then have s1: "s1 = s\<lparr>statusText := Some DetectingBPM\<rparr>"
    by (auto simp add: detectBPM_def Let_def split: mt_outcome.splits if_splits)
  show ?thesis
  proof (cases detected)
    case None
    with Some d s1 show ?thesis by (simp add: redetect_def same_entries_def)
  next
    case v: (Some v)
    obtain s2 where a: "applyBPM (Some v) s1 = Inr s2"
      using applyBPM_total[of "Some v" s1] by blast
    have "same_entries s1 s" by (simp add: s1 same_entries_def)
    moreover have "same_entries (state_after (redetect mt s)) (state_after (applyBPM (Some v) s1))"
      using Some d v a by (simp add: redetect_def same_entries_def)
    ultimately show ?thesis by blast
  qed
qed

lemma transcribe_shape:
  "same_entries (state_after (handleTranscribe r s)) s \<or>
   (\<exists>s1 ws. same_entries s1 s \<and> r = TrWords ws \<and> state_after (handleTranscribe r s) = state_after (processWords ws s1))"
proof (cases "filePath s = None \<or> pythonCmd s = None")
  case True
  then show ?thesis by (auto simp add: handleTranscribe_def same_entries_def)
next
  case False
  show ?thesis
  proof (cases r)
    case (TrFailed msg)
    with False show ?thesis by (simp add: handleTranscribe_def same_entries_def)
  next
    case (TrWords ws)
    have "same_entries (s\<lparr>statusText := None\<rparr>) s" by (simp add: same_entries_def)
    moreover have "state_after (handleTranscribe r s) = state_after (processWords ws (s\<lparr>statusText := None\<rparr>))"
      using False TrWords by (auto simp add: handleTranscribe_def)
    ultimately show ?thesis using TrWords by blast
  qed
qed


lemma manualApply_lyrics:
  "state_after (manualApply v s) = s \<or>
    (\<exists>ws. state_after (manualApply v s) = state_after (processWords ws s))"
  by (auto simp add: manualApply_def distributeManualLyrics_def Let_def split: option.splits)

lemma via_applyBPM:
  assumes pc: "\<And>s' s. same_entries s' s \<Longrightarrow> P s' = P s"
    and pa: "\<And>b s. P s \<Longrightarrow> P (state_after (applyBPM b s))"
    and "P s"
    and shape: "same_entries t s \<or>
      (\<exists>s1 v. same_entries s1 s \<and> same_entries t (state_after (applyBPM (Some v) s1)))"
  shows "P t"
  using shape
proof (elim disjE exE conjE)
  assume "same_entries t s"
  from pc[OF this] \<open>P s\<close> show ?thesis by simp
next
  fix s1 v
  assume a: "same_entries s1 s" and b: "same_entries t (state_after (applyBPM (Some v) s1))"
  from pc[OF a] \<open>P s\<close> have "P s1" by simp
  then have "P (state_after (applyBPM (Some v) s1))" by (rule pa)
  with pc[OF b] show ?thesis by simp
qed

lemma rounded_step:
  assumes "session_rounded s"
  shows "session_rounded (step mt a s)"
proof (cases a)
  case (HandleFile p out)
  have "session_rounded (handleFile mt p out s)"
    by (rule via_applyBPM[where P = session_rounded, OF rounded_cong rounded_applyBPM assms handleFile_shape])
  then show ?thesis by (simp add: HandleFile)
next
  case (BpmInput v)
  then show ?thesis using assms by (simp add: rounded_applyBPM)
next
  case Redetect
  have "session_rounded (state_after (redetect mt s))"
    by (rule via_applyBPM[where P = session_rounded, OF rounded_cong rounded_applyBPM assms redetect_shape])
  then show ?thesis by (simp add: Redetect)
next
  case (Transcribe r)
  from transcribe_shape[of r s] have "session_rounded (state_after (handleTranscribe r s))"
  proof (elim disjE exE conjE)
    assume "same_entries (state_after (handleTranscribe r s)) s"
    from rounded_cong[OF this] assms show ?thesis by simp
  next
    fix s1 ws
    assume a: "same_entries s1 s"
      and e: "state_after (handleTranscribe r s) = state_after (processWords ws s1)"
    from rounded_cong[OF a] assms have "session_rounded s1" by simp
    then show ?thesis unfolding e by (rule rounded_processWords)
  qed
  then show ?thesis by (simp add: Transcribe)
next
  case (ManualApply v)
  from manualApply_lyrics[of v s] have "session_rounded (state_after (manualApply v s))"
  proof (elim disjE exE)
    assume "state_after (manualApply v s) = s"
    with assms show ?thesis by simp
  next
    fix ws
    assume e: "state_after (manualApply v s) = state_after (processWords ws s)"
    show ?thesis unfolding e using assms by (rule rounded_processWords)
  qed
  then show ?thesis by (simp add: ManualApply)
next
  case Reset
  then show ?thesis by (simp add: resetApp_def session_rounded_def)
next
  case (InitPython found)
  then show ?thesis using assms by (simp add: initPython_def session_rounded_def)
next
  case (ClipsChanged cs)
  then show ?thesis using assms by (simp add: session_rounded_def)
qed


lemma rounded_run: "session_rounded s \<Longrightarrow> session_rounded (run mt acts s)"
  by (induction acts arbitrary: s) (simp_all add: rounded_step)


lemma rounded_initial: "session_rounded initial_state"
  by (simp add: session_rounded_def initial_state_def)


section \<open>Facts about the footage tracker\<close>



section \<open>Facts about re-tempo\<close>

lemma retempo_entry:
  "gridEntry g \<lparr>w_word = word x, w_start = Some (raw_start x), w_raw_start = None\<rparr> =
     \<lparr>word = word x, raw_start = toFixed 4 (raw_start x),
      snapped_start = toFixed 4 (snapToGrid (raw_start x) (eighth_note g)),
      type = classifyBeat (snapToGrid (raw_start x) (eighth_note g)) g\<rparr>"
  by (simp add: gridEntry_def rawOf_def Let_def)

lemma retempo_twice:
  assumes "list_all entry_rounded es"
  shows "map (\<lambda>x. gridEntry g \<lparr>w_word = word x, w_start = Some (raw_start x), w_raw_start = None\<rparr>)
      (map (\<lambda>x. gridEntry g \<lparr>w_word = word x, w_start = Some (raw_start x), w_raw_start = None\<rparr>) es)
    = map (\<lambda>x. gridEntry g \<lparr>w_word = word x, w_start = Some (raw_start x), w_raw_start = None\<rparr>) es"
  using assms by (simp add: list_all_iff entry_rounded_def retempo_entry)

section \<open>Facts about the uniform distribution\<close>



section \<open>Facts about tempo detection\<close>

lemma detectBPM_fails:
  assumes "mt (channelData ab) = MtThrows \<or> (\<exists>t. mt (channelData ab) = MtTempo t \<and> (t < 40 \<or> 280 < t))"
  shows "detectBPM mt ab s = (None, s\<lparr>statusText := Some DetectingBPM\<rparr>)"
  using assms by (auto simp add: detectBPM_def Let_def)

section \<open>Claims about the grid math\<close>

text \<open>
  C1. For every tempo \<open>b > 0\<close>, \<open>calcGrid\<close> returns exactly the four intervals
  quarter \<open>= 60/b\<close>, eighth \<open>= (60/b)/2\<close>, half \<open>= 2 * (60/b)\<close> and
  downbeat \<open>= 4 * (60/b)\<close>.
\<close>

theorem calcGrid_intervals:
  assumes "0 < b"
  shows "calcGrid b = \<lparr>eighth_note = (60 / b) / 2, quarter_note = 60 / b,
      half_note = 2 * (60 / b), downbeat_whole = 4 * (60 / b)\<rparr>"
  by (simp add: calcGrid_def Let_def)

theorem calcGrid_intervals_witness:
  "(0::real) < 120 \<and> calcGrid 120 = \<lparr>eighth_note = 1 / 4, quarter_note = 1 / 2,
      half_note = 1, downbeat_whole = 2\<rparr>"
  using calcGrid_intervals[of 120] by simp



text \<open>
  C8. Snapping is idempotent: for every \<open>t \<ge> 0\<close> and eighth interval \<open>e > 0\<close>,
  snapping a snapped time again gives the same time.
\<close>

theorem snapToGrid_idempotent:
  assumes "0 \<le> t" and "0 < e"
  shows "snapToGrid (snapToGrid t e) e = snapToGrid t e"
  using assms(2) by (simp add: snapToGrid_def Math_round_def)

theorem snapToGrid_idempotent_witness:
  "(0::real) \<le> 205 / 100 \<and> (0::real) < 25 / 100
    \<and> snapToGrid (snapToGrid (205 / 100) (25 / 100)) (25 / 100) = snapToGrid (205 / 100) (25 / 100)
    \<and> snapToGrid (205 / 100) (25 / 100) = 2"
proof -
  have h1: "(0::real) \<le> 205 / 100" and h2: "(0::real) < 25 / 100"
    by simp_all
  have s: "snapToGrid (205 / 100) (25 / 100) = 2"
    by (simp add: snapToGrid_def Math_round_def)
  from snapToGrid_idempotent[OF h1 h2] h1 h2 s show ?thesis
    by blast
qed

text \<open>
  C3. For every time \<open>v\<close> and every grid of a tempo \<open>b > 0\<close>, \<open>classifyBeat\<close>
  tests the downbeat, half and quarter families in that order with the
  residue test of the specification (\<open>v mod m\<close> within \<open>1e-4\<close> of \<open>0\<close> or of
  \<open>m\<close>), returns the first match and \<open>offbeat\<close> when none matches; it gives
  exactly one of the four classes; and every time \<open>k * downbeat\<close> with a
  natural \<open>k\<close> is a downbeat.
\<close>

theorem classifyBeat_families:
  assumes "0 < b"
  shows "classifyBeat v (calcGrid b) =
      (if member_of_family v (downbeat_whole (calcGrid b)) then Downbeat
       else if member_of_family v (half_note (calcGrid b)) then Half
       else if member_of_family v (quarter_note (calcGrid b)) then Quarter
       else Offbeat)
    \<and> (\<exists>!c. classifyBeat v (calcGrid b) = c \<and> c \<in> {Downbeat, Half, Quarter, Offbeat})
    \<and> (\<forall>k::nat. classifyBeat (of_nat k * downbeat_whole (calcGrid b)) (calcGrid b) = Downbeat)"
proof -
  note pos = calcGrid_pos[OF assms]
  have a: "classifyBeat v (calcGrid b) =
      (if member_of_family v (downbeat_whole (calcGrid b)) then Downbeat
       else if member_of_family v (half_note (calcGrid b)) then Half
       else if member_of_family v (quarter_note (calcGrid b)) then Quarter
       else Offbeat)"
    by (simp add: classifyBeat_def Let_def near_member[OF pos(2)] near_member[OF pos(3)]
        near_member[OF pos(4)])
  have "classifyBeat v (calcGrid b) \<in> {Downbeat, Half, Quarter, Offbeat}"
    by (cases "classifyBeat v (calcGrid b)") simp_all
  then have c: "\<exists>!c. classifyBeat v (calcGrid b) = c \<and> c \<in> {Downbeat, Half, Quarter, Offbeat}"
    by blast
  have d: "\<forall>k::nat. classifyBeat (of_nat k * downbeat_whole (calcGrid b)) (calcGrid b) = Downbeat"
    using near_multiple[OF pos(4)] by (simp add: classifyBeat_def Let_def)
  from a c d show ?thesis by blast
qed

theorem classifyBeat_families_witness:
  "(0::real) < 120
    \<and> classifyBeat (3 / 4) (calcGrid 120) = Offbeat
    \<and> classifyBeat (of_nat 3 * downbeat_whole (calcGrid 120)) (calcGrid 120) = Downbeat"
proof -
  have h: "(0::real) < 120" by simp
  have m1: "\<not> member_of_family (3 / 4) (downbeat_whole (calcGrid 120))"
    by (simp add: member_of_family_def residue_def calcGrid_def Let_def)
  have m2: "\<not> member_of_family (3 / 4) (half_note (calcGrid 120))"
    by (simp add: member_of_family_def residue_def calcGrid_def Let_def)
  have m3: "\<not> member_of_family (3 / 4) (quarter_note (calcGrid 120))"
    by (simp add: member_of_family_def residue_def calcGrid_def Let_def)
  note c = classifyBeat_families[OF h, of "3 / 4"]
  from c m1 m2 m3 have a: "classifyBeat (3 / 4) (calcGrid 120) = Offbeat"
    by simp
  from c have "\<forall>k::nat. classifyBeat (of_nat k * downbeat_whole (calcGrid 120)) (calcGrid 120) = Downbeat"
    by blast
  then have d: "classifyBeat (of_nat 3 * downbeat_whole (calcGrid 120)) (calcGrid 120) = Downbeat"
    by (rule spec)
  from h a d show ?thesis
    by blast
qed

section \<open>Claims about the footage tracker\<close>


section \<open>Claims about sessions\<close>

text \<open>
  C5. When the tempo changes, \<open>applyBPM\<close> replaces the whole sequence of
  entries: every entry is snapped and classified again from its stored raw
  timestamp against the grid of the new tempo. Applying the same tempo a
  second time, in any state a session can reach, changes nothing.
\<close>

theorem applyBPM_retempo:
  assumes "0 < b"
  shows "applyBPM (Some b) s =
      Inr (s\<lparr>bpm := Some b, grid := Some (calcGrid b),
             lyricsGrid := map (\<lambda>x. \<lparr>word = word x, raw_start = toFixed 4 (raw_start x),
                 snapped_start = toFixed 4 (snapToGrid (raw_start x) (eighth_note (calcGrid b))),
                 type = classifyBeat (snapToGrid (raw_start x) (eighth_note (calcGrid b))) (calcGrid b)\<rparr>)
               (lyricsGrid s)\<rparr>)
    \<and> state_after (applyBPM (Some b) (state_after (applyBPM (Some b) (run mt acts initial_state))))
      = state_after (applyBPM (Some b) (run mt acts initial_state))"
proof -
  have a: "applyBPM (Some b) s =
      Inr (s\<lparr>bpm := Some b, grid := Some (calcGrid b),
             lyricsGrid := map (\<lambda>x. \<lparr>word = word x, raw_start = toFixed 4 (raw_start x),
                 snapped_start = toFixed 4 (snapToGrid (raw_start x) (eighth_note (calcGrid b))),
                 type = classifyBeat (snapToGrid (raw_start x) (eighth_note (calcGrid b))) (calcGrid b)\<rparr>)
               (lyricsGrid s)\<rparr>)"
    by (simp add: applyBPM_pos[OF assms] retempo_entry)
  have "session_rounded (run mt acts initial_state)"
    by (rule rounded_run[OF rounded_initial])
  then have r: "list_all entry_rounded (lyricsGrid (run mt acts initial_state))"
    by (simp add: session_rounded_def)
  have b: "state_after (applyBPM (Some b) (state_after (applyBPM (Some b) (run mt acts initial_state))))
      = state_after (applyBPM (Some b) (run mt acts initial_state))"
    by (simp add: applyBPM_pos[OF assms] retempo_twice[OF r] del: map_map)
  from a b show ?thesis by blast
qed

theorem applyBPM_retempo_witness:
  "(0::real) < 90
   \<and> map snapped_start (lyricsGrid (state_after (applyBPM (Some 90) (run no_tempo
       [InitPython (Some ''python3''),
        HandleFile ''a.mp3'' (Loaded \<lparr>ab_duration = 9 / 10, channelData = []\<rparr>),
        Transcribe (TrWords [\<lparr>w_word = ''hi'', w_start = Some (9 / 10), w_raw_start = None\<rparr>])]
       initial_state)))) = [1]
   \<and> state_after (applyBPM (Some 90) (state_after (applyBPM (Some 90) (run no_tempo
       [InitPython (Some ''python3''),
        HandleFile ''a.mp3'' (Loaded \<lparr>ab_duration = 9 / 10, channelData = []\<rparr>),
        Transcribe (TrWords [\<lparr>w_word = ''hi'', w_start = Some (9 / 10), w_raw_start = None\<rparr>])]
       initial_state))))
     = state_after (applyBPM (Some 90) (run no_tempo
       [InitPython (Some ''python3''),
        HandleFile ''a.mp3'' (Loaded \<lparr>ab_duration = 9 / 10, channelData = []\<rparr>),
        Transcribe (TrWords [\<lparr>w_word = ''hi'', w_start = Some (9 / 10), w_raw_start = None\<rparr>])]
       initial_state))"
proof -
  have h: "(0::real) < 90" by simp
  have v: "map snapped_start (lyricsGrid (state_after (applyBPM (Some 90) (run no_tempo
       [InitPython (Some ''python3''),
        HandleFile ''a.mp3'' (Loaded \<lparr>ab_duration = 9 / 10, channelData = []\<rparr>),
        Transcribe (TrWords [\<lparr>w_word = ''hi'', w_start = Some (9 / 10), w_raw_start = None\<rparr>])]
       initial_state)))) = [1]"
    by code_simp
  from applyBPM_retempo[OF h] h v show ?thesis by blast
qed

text \<open>
  The first application of a tempo may move an entry even when that tempo is
  already the current one: \<open>processWords\<close> snaps the timestamp it was given,
  and stores it with four decimals; \<open>applyBPM\<close> snaps the stored one.
\<close>

lemma reapply_current_tempo_moves_entry:
  "bpm (run no_tempo
       [InitPython (Some ''python3''),
        HandleFile ''a.mp3'' (Loaded \<lparr>ab_duration = 1, channelData = []\<rparr>),
        Transcribe (TrWords [\<lparr>w_word = ''hi'', w_start = Some (12496 / 100000), w_raw_start = None\<rparr>])]
       initial_state) = Some 120
   \<and> map snapped_start (lyricsGrid (run no_tempo
       [InitPython (Some ''python3''),
        HandleFile ''a.mp3'' (Loaded \<lparr>ab_duration = 1, channelData = []\<rparr>),
        Transcribe (TrWords [\<lparr>w_word = ''hi'', w_start = Some (12496 / 100000), w_raw_start = None\<rparr>])]
       initial_state)) = [0]
   \<and> map snapped_start (lyricsGrid (run no_tempo
       [InitPython (Some ''python3''),
        HandleFile ''a.mp3'' (Loaded \<lparr>ab_duration = 1, channelData = []\<rparr>),
        Transcribe (TrWords [\<lparr>w_word = ''hi'', w_start = Some (12496 / 100000), w_raw_start = None\<rparr>]),
        BpmInput (Some 120)]
       initial_state)) = [1 / 4]"
  by code_simp



text \<open>
  C10. In every state that a session reaches, each entry has a raw and a
  snapped timestamp that are already rounded to four decimals: rounding them
  again changes nothing. That holds of every entry \<open>processWords\<close> builds.
  The object that \<open>buildJSON\<close> serialises carries the stored sequence of
  entries itself as \<open>lyrics_grid\<close>.
\<close>

theorem entries_four_decimals:
  "(\<forall>x \<in> set (lyricsGrid (run mt acts initial_state)).
      toFixed 4 (raw_start x) = raw_start x \<and> toFixed 4 (snapped_start x) = snapped_start x)
   \<and> toFixed 4 (raw_start (gridEntry g w)) = raw_start (gridEntry g w)
   \<and> toFixed 4 (snapped_start (gridEntry g w)) = snapped_start (gridEntry g w)
   \<and> (\<forall>j. buildJSON basename (run mt acts initial_state) = Inr j \<longrightarrow>
        lyrics_grid j = lyricsGrid (run mt acts initial_state))"
proof -
  have "session_rounded (run mt acts initial_state)"
    by (rule rounded_run[OF rounded_initial])
  then have a: "\<forall>x \<in> set (lyricsGrid (run mt acts initial_state)).
      toFixed 4 (raw_start x) = raw_start x \<and> toFixed 4 (snapped_start x) = snapped_start x"
    by (simp add: session_rounded_def list_all_iff entry_rounded_def)
  have b: "toFixed 4 (raw_start (gridEntry g w)) = raw_start (gridEntry g w)"
    and b': "toFixed 4 (snapped_start (gridEntry g w)) = snapped_start (gridEntry g w)"
    using gridEntry_rounded[of g w] by (simp_all add: entry_rounded_def)
  have c: "\<forall>j. buildJSON basename (run mt acts initial_state) = Inr j \<longrightarrow>
        lyrics_grid j = lyricsGrid (run mt acts initial_state)"
    by (auto simp add: buildJSON_def split: option.splits)
  from a b b' c show ?thesis by blast
qed

theorem entries_four_decimals_witness:
  "map raw_start (lyricsGrid (run no_tempo
       [InitPython (Some ''python3''),
        HandleFile ''a.mp3'' (Loaded \<lparr>ab_duration = 1, channelData = []\<rparr>),
        Transcribe (TrWords [\<lparr>w_word = ''hi'', w_start = Some (12496 / 100000), w_raw_start = None\<rparr>])]
       initial_state)) = [1250 / 10000]
   \<and> toFixed 4 (raw_start (hd (lyricsGrid (run no_tempo
       [InitPython (Some ''python3''),
        HandleFile ''a.mp3'' (Loaded \<lparr>ab_duration = 1, channelData = []\<rparr>),
        Transcribe (TrWords [\<lparr>w_word = ''hi'', w_start = Some (12496 / 100000), w_raw_start = None\<rparr>])]
       initial_state))))
     = raw_start (hd (lyricsGrid (run no_tempo
       [InitPython (Some ''python3''),
        HandleFile ''a.mp3'' (Loaded \<lparr>ab_duration = 1, channelData = []\<rparr>),
        Transcribe (TrWords [\<lparr>w_word = ''hi'', w_start = Some (12496 / 100000), w_raw_start = None\<rparr>])]
       initial_state)))
   \<and> (\<exists>j. buildJSON id (run no_tempo
       [InitPython (Some ''python3''),
        HandleFile ''a.mp3'' (Loaded \<lparr>ab_duration = 1, channelData = []\<rparr>),
        Transcribe (TrWords [\<lparr>w_word = ''hi'', w_start = Some (12496 / 100000), w_raw_start = None\<rparr>])]
       initial_state) = Inr j
      \<and> map raw_start (lyrics_grid j) = [1250 / 10000])"
proof -
  let ?acts = "[InitPython (Some ''python3''),
        HandleFile ''a.mp3'' (Loaded \<lparr>ab_duration = 1, channelData = []\<rparr>),
        Transcribe (TrWords [\<lparr>w_word = ''hi'', w_start = Some (12496 / 100000), w_raw_start = None\<rparr>])]"
  let ?s = "run no_tempo ?acts initial_state"
  have v: "map raw_start (lyricsGrid ?s) = [1250 / 10000]"
    by code_simp
  have f: "filePath ?s = Some ''a.mp3''"
    by code_simp
  have g: "grid ?s = Some (calcGrid 120)"
    by code_simp
  have ne: "lyricsGrid ?s \<noteq> []"
    by code_simp
  then have m: "hd (lyricsGrid ?s) \<in> set (lyricsGrid ?s)"
    by (rule hd_in_set)
  have "\<exists>j. buildJSON id ?s = Inr j"
    unfolding buildJSON_def f g by simp
  then obtain j where j: "buildJSON id ?s = Inr j"
    by blast
  note t = entries_four_decimals[of no_tempo ?acts "calcGrid 120"
      "\<lparr>w_word = ''hi'', w_start = Some (12496 / 100000), w_raw_start = None\<rparr>" id]
  have r: "\<forall>x \<in> set (lyricsGrid ?s).
      toFixed 4 (raw_start x) = raw_start x \<and> toFixed 4 (snapped_start x) = snapped_start x"
    by (rule conjunct1[OF t])
  have r1: "toFixed 4 (raw_start (hd (lyricsGrid ?s))) = raw_start (hd (lyricsGrid ?s))"
    by (rule conjunct1[OF bspec[OF r m]])
  have u: "\<forall>j. buildJSON id ?s = Inr j \<longrightarrow> lyrics_grid j = lyricsGrid ?s"
    by (rule conjunct2[OF conjunct2[OF conjunct2[OF t]]])
  have "lyrics_grid j = lyricsGrid ?s"
    by (rule mp[OF spec[OF u] j])
  with v have m: "map raw_start (lyrics_grid j) = [1250 / 10000]"
    by (simp only:)
  have e: "\<exists>j. buildJSON id ?s = Inr j \<and> map raw_start (lyrics_grid j) = [1250 / 10000]"
    by (rule exI[of _ j], rule conjI[OF j m])
  from conjI[OF v conjI[OF r1 e]] show ?thesis .
qed



section \<open>Claims about tempo detection\<close>

text \<open>
  C7, as stated: whenever tempo detection fails or returns a tempo outside
  \<open>[40, 280]\<close>, on the file-load path and on the re-detect path alike, the
  tempo falls back to 120 and the user is told to enter it. On the re-detect
  path it does not: after a load whose detection failed and a tempo of 90
  entered by hand, a re-detection that fails again leaves the tempo at 90
  and the status bar empty.
\<close>

theorem redetect_fallback_counterexample:
  "bpm (run no_tempo
      [HandleFile ''a.mp3'' (Loaded \<lparr>ab_duration = 1, channelData = []\<rparr>), BpmInput (Some 90), Redetect]
      initial_state) = Some 90
   \<and> statusText (run no_tempo
      [HandleFile ''a.mp3'' (Loaded \<lparr>ab_duration = 1, channelData = []\<rparr>), BpmInput (Some 90), Redetect]
      initial_state) = None
   \<and> \<not> (bpm (run no_tempo
      [HandleFile ''a.mp3'' (Loaded \<lparr>ab_duration = 1, channelData = []\<rparr>), BpmInput (Some 90), Redetect]
      initial_state) = Some 120
     \<and> statusText (run no_tempo
      [HandleFile ''a.mp3'' (Loaded \<lparr>ab_duration = 1, channelData = []\<rparr>), BpmInput (Some 90), Redetect]
      initial_state) = Some DetectionFailed)"
  by code_simp

text \<open>
  C7, amended. When detection fails or returns a tempo outside \<open>[40, 280]\<close>
  for a file that was decoded, \<open>handleFile\<close> sets the tempo to 120, with its
  grid, and the status tells the user to enter the tempo. In the same case
  the re-detect handler changes nothing but the status text, which it clears.
\<close>

theorem detection_failure_paths:
  assumes "p \<noteq> []"
    and "mt (channelData ab) = MtThrows \<or> (\<exists>t. mt (channelData ab) = MtTempo t \<and> (t < 40 \<or> 280 < t))"
    and "audioBuffer s' = Some ab"
  shows "bpm (handleFile mt p (Loaded ab) s) = Some 120
    \<and> grid (handleFile mt p (Loaded ab) s) = Some (calcGrid 120)
    \<and> statusText (handleFile mt p (Loaded ab) s) = Some DetectionFailed
    \<and> redetect mt s' = Inr (s'\<lparr>statusText := None\<rparr>)"
proof -
  have pos: "(0::real) < 120" by simp
  have hf: "handleFile mt p (Loaded ab) s =
      (state_after (applyBPM (Some 120)
         (s\<lparr>statusText := Some LoadingAudio, audioBuffer := Some ab,
              duration := Some (ab_duration ab), filePath := Some p,
              statusText := Some DetectingBPM\<rparr>)))\<lparr>statusText := Some DetectionFailed\<rparr>"
    using assms(1)
    by (simp add: handleFile_def loadAudioFile_def Let_def detectBPM_fails[of mt ab, OF assms(2)]
        applyBPM_pos[OF pos])
  have a: "bpm (handleFile mt p (Loaded ab) s) = Some 120"
    by (simp add: hf applyBPM_pos[OF pos])
  have b: "grid (handleFile mt p (Loaded ab) s) = Some (calcGrid 120)"
    by (simp add: hf applyBPM_pos[OF pos])
  have c: "statusText (handleFile mt p (Loaded ab) s) = Some DetectionFailed"
    by (simp add: hf)
  have d: "redetect mt s' = Inr (s'\<lparr>statusText := None\<rparr>)"
    by (simp add: redetect_def assms(3) detectBPM_fails[of mt ab, OF assms(2)])
  from a b c d show ?thesis by (intro conjI)
qed

theorem detection_failure_paths_witness:
  "''a.mp3'' \<noteq> []
   \<and> (no_tempo (channelData \<lparr>ab_duration = 1, channelData = []\<rparr>) = MtThrows
      \<or> (\<exists>t. no_tempo (channelData \<lparr>ab_duration = 1, channelData = []\<rparr>) = MtTempo t \<and> (t < 40 \<or> 280 < t)))
   \<and> audioBuffer (initial_state\<lparr>audioBuffer := Some \<lparr>ab_duration = 1, channelData = []\<rparr>,
        bpm := Some 90, grid := Some (calcGrid 90)\<rparr>) = Some \<lparr>ab_duration = 1, channelData = []\<rparr>
   \<and> bpm (handleFile no_tempo ''a.mp3'' (Loaded \<lparr>ab_duration = 1, channelData = []\<rparr>) initial_state) = Some 120
   \<and> statusText (handleFile no_tempo ''a.mp3'' (Loaded \<lparr>ab_duration = 1, channelData = []\<rparr>) initial_state)
       = Some DetectionFailed
   \<and> redetect no_tempo (initial_state\<lparr>audioBuffer := Some \<lparr>ab_duration = 1, channelData = []\<rparr>,
        bpm := Some 90, grid := Some (calcGrid 90)\<rparr>)
      = Inr (initial_state\<lparr>audioBuffer := Some \<lparr>ab_duration = 1, channelData = []\<rparr>,
        bpm := Some 90, grid := Some (calcGrid 90), statusText := None\<rparr>)"
proof -
  let ?ab = "\<lparr>ab_duration = 1, channelData = []\<rparr>"
  let ?s' = "initial_state\<lparr>audioBuffer := Some ?ab, bpm := Some 90, grid := Some (calcGrid 90)\<rparr>"
  have h1: "''a.mp3'' \<noteq> []" by simp
  have h2: "no_tempo (channelData ?ab) = MtThrows
      \<or> (\<exists>t. no_tempo (channelData ?ab) = MtTempo t \<and> (t < 40 \<or> 280 < t))"
    by (simp add: no_tempo_def)
  have h3: "audioBuffer ?s' = Some ?ab" by simp
  note t = detection_failure_paths[of "''a.mp3''" no_tempo ?ab ?s' initial_state, OF h1 h2 h3]
  have a: "bpm (handleFile no_tempo ''a.mp3'' (Loaded ?ab) initial_state) = Some 120"
    by (rule conjunct1[OF t])
  have c: "statusText (handleFile no_tempo ''a.mp3'' (Loaded ?ab) initial_state) = Some DetectionFailed"
    by (rule conjunct1[OF conjunct2[OF conjunct2[OF t]]])
  have "redetect no_tempo ?s' = Inr (?s'\<lparr>statusText := None\<rparr>)"
    by (rule conjunct2[OF conjunct2[OF conjunct2[OF t]]])
  then have d: "redetect no_tempo ?s' = Inr (initial_state\<lparr>audioBuffer := Some ?ab,
        bpm := Some 90, grid := Some (calcGrid 90), statusText := None\<rparr>)"
    by simp
  from conjI[OF h1 conjI[OF h2 conjI[OF h3 conjI[OF a conjI[OF c d]]]]] show ?thesis .
qed

end
